theory Spec2Isabelle
  imports Main "HOL-Library.Word" "HOL-Library.AList"
begin

section \<open>The REG namespace of the Python bindings\<close>

text \<open>
  The development follows \<^verbatim>\<open>initRegNamespace.cpp\<close>.  The function
  \<^verbatim>\<open>initRegNamespace\<close> clears the dictionary it is handed and then, one architecture
  after the other, builds a fresh dictionary of registers, wraps it into a class object and
  stores that class under the architecture's label.  The registers themselves come from
  the \<^verbatim>\<open>*.spec\<close> files, which are included once per architecture under a local
  definition of the macros \<^verbatim>\<open>REG_SPEC\<close>, \<^verbatim>\<open>REG_SPEC_NO_CAPSTONE\<close> and
  \<^verbatim>\<open>SYS_REG_SPEC\<close>.
\<close>

subsection \<open>Python objects\<close>

text \<open>
  The objects the function creates: integers, strings and classes.  A class is recorded
  with the three arguments of \<^verbatim>\<open>xPyClass_New\<close>: its bases (\<^verbatim>\<open>nullptr\<close> is
  \<open>None\<close>), its dictionary and its name.  A dictionary keeps its keys in insertion order
  and holds every key once, so it is an association list.
\<close>

datatype PyObject =
    PyLong int
  | PyString string
  | PyClass "PyObject option" "(string \<times> PyObject) list" PyObject

type_synonym PyDict = "(string \<times> PyObject) list"

text \<open>
  The dictionary primitives of the scripting runtime and the \<^verbatim>\<open>xPy...\<close>
  wrappers around them are defined outside \<^verbatim>\<open>initRegNamespace.cpp\<close>; each is
  given here by what it does to the objects above.
\<close>

text \<open>
  Modelled from the spec: \<^verbatim>\<open>PyDict_Clear\<close>, of the scripting runtime, is missing.
  It resets a dictionary: no entry it held is left.
\<close>

definition PyDict_Clear :: "PyDict \<Rightarrow> PyDict" where
  "PyDict_Clear d = []"

text \<open>
  Modelled from the spec: \<^verbatim>\<open>xPyDict_New\<close>, of the \<^verbatim>\<open>xPy...\<close> wrappers, is
  missing.  It creates a dictionary with no entry.
\<close>

definition xPyDict_New :: PyDict where
  "xPyDict_New = []"

text \<open>
  Modelled from the spec: \<^verbatim>\<open>xPyDict_SetItemString\<close>, of the \<^verbatim>\<open>xPy...\<close>
  wrappers, is missing.  It stores a value under a key: the value of a key that is
  already there is replaced in place, a new key is appended.
\<close>

definition xPyDict_SetItemString :: "PyDict \<Rightarrow> string \<Rightarrow> PyObject \<Rightarrow> PyDict" where
  "xPyDict_SetItemString d key val = AList.update key val d"

text \<open>
  Modelled from the spec: \<^verbatim>\<open>xPyString_FromString\<close>, of the \<^verbatim>\<open>xPy...\<close>
  wrappers, is missing.  It creates the Python string of a C string.
\<close>

definition xPyString_FromString :: "string \<Rightarrow> PyObject" where
  "xPyString_FromString s = PyString s"

text \<open>
  Modelled from the spec: \<^verbatim>\<open>xPyClass_New\<close>, of the \<^verbatim>\<open>xPy...\<close> wrappers, is
  missing.  It creates a class object from its bases, its dictionary and its name; the
  class is the architecture's namespace, its dictionary the mapping from register
  names to identifiers.
\<close>

definition xPyClass_New :: "PyObject option \<Rightarrow> PyDict \<Rightarrow> PyObject \<Rightarrow> PyObject" where
  "xPyClass_New b d n = PyClass b d n"

text \<open>
  Modelled from the spec: \<^verbatim>\<open>PyLong_FromUint32\<close>, of the Python utilities, is
  missing.  It turns a \<^verbatim>\<open>triton::uint32\<close> into the Python integer of the same
  (unsigned) value; the identifiers of the specification are unsigned integers.
\<close>

definition PyLong_FromUint32 :: "32 word \<Rightarrow> PyObject" where
  "PyLong_FromUint32 x = PyLong (uint x)"

subsection \<open>The specification tables and the build\<close>

text \<open>
  A line of a \<^verbatim>\<open>.spec\<close> file is one macro invocation.  \<^verbatim>\<open>x86.spec\<close> and
  \<^verbatim>\<open>arm32.spec\<close> are included where only \<^verbatim>\<open>REG_SPEC\<close> and
  \<^verbatim>\<open>REG_SPEC_NO_CAPSTONE\<close> are defined; \<^verbatim>\<open>aarch64.spec\<close>,
  \<^verbatim>\<open>riscv64.spec\<close> and \<^verbatim>\<open>riscv32.spec\<close> are included where
  \<^verbatim>\<open>SYS_REG_SPEC\<close> is defined as well.  The type parameter is what the macro
  bodies read of the arguments of a line; the arguments they name \<^verbatim>\<open>_0\<close> to
  \<^verbatim>\<open>_8\<close> are never used and are left out.
\<close>

datatype 'a spec_line = REG_SPEC 'a | REG_SPEC_NO_CAPSTONE 'a

datatype 'a sys_spec_line = Reg "'a spec_line" | SYS_REG_SPEC 'a

record x86_args =
  UPPER_NAME :: string
  X86_AVAIL :: bool

text \<open>
  What the translation unit is compiled against: the enumeration
  \<^verbatim>\<open>triton::arch::register_e\<close> (the value of each enumerator, by its name, as the
  \<^verbatim>\<open>triton::uint32\<close> handed to \<^verbatim>\<open>PyLong_FromUint32\<close>), the five included
  tables and whether \<^verbatim>\<open>COMPILE_RISCV\<close> is defined.  All of them are fixed
  outside \<^verbatim>\<open>initRegNamespace.cpp\<close>, so they are parameters.
\<close>

record build =
  register_e :: "string \<Rightarrow> 32 word"
  x86_spec :: "x86_args spec_line list"
  aarch64_spec :: "string sys_spec_line list"
  arm32_spec :: "string spec_line list"
  COMPILE_RISCV :: bool
  riscv64_spec :: "string sys_spec_line list"
  riscv32_spec :: "string sys_spec_line list"

subsection \<open>The macro bodies\<close>

text \<open>
  Each body is a statement on the dictionary under construction; \<open>##\<close> pastes the
  register's name onto the enumerator prefix and \<open>#\<close> turns it into the key.
\<close>

definition X86_REG_SPEC :: "(string \<Rightarrow> 32 word) \<Rightarrow> x86_args \<Rightarrow> PyDict \<Rightarrow> PyDict" where
  "X86_REG_SPEC enum a x86RegistersDict =
     (if X86_AVAIL a
      then xPyDict_SetItemString x86RegistersDict (UPPER_NAME a)
             (PyLong_FromUint32 (enum (''ID_REG_X86_'' @ UPPER_NAME a)))
      else x86RegistersDict)"

definition X8664_REG_SPEC :: "(string \<Rightarrow> 32 word) \<Rightarrow> x86_args \<Rightarrow> PyDict \<Rightarrow> PyDict" where
  "X8664_REG_SPEC enum a x8664RegistersDict =
     xPyDict_SetItemString x8664RegistersDict (UPPER_NAME a)
       (PyLong_FromUint32 (enum (''ID_REG_X86_'' @ UPPER_NAME a)))"

definition AARCH64_REG_SPEC :: "(string \<Rightarrow> 32 word) \<Rightarrow> string \<Rightarrow> PyDict \<Rightarrow> PyDict" where
  "AARCH64_REG_SPEC enum upper_name aarch64RegistersDict =
     xPyDict_SetItemString aarch64RegistersDict upper_name
       (PyLong_FromUint32 (enum (''ID_REG_AARCH64_'' @ upper_name)))"

definition ARM32_REG_SPEC :: "(string \<Rightarrow> 32 word) \<Rightarrow> string \<Rightarrow> PyDict \<Rightarrow> PyDict" where
  "ARM32_REG_SPEC enum upper_name arm32RegistersDict =
     xPyDict_SetItemString arm32RegistersDict upper_name
       (PyLong_FromUint32 (enum (''ID_REG_ARM32_'' @ upper_name)))"

definition RV64_REG_SPEC :: "(string \<Rightarrow> 32 word) \<Rightarrow> string \<Rightarrow> PyDict \<Rightarrow> PyDict" where
  "RV64_REG_SPEC enum upper_name riscv64RegistersDict =
     xPyDict_SetItemString riscv64RegistersDict upper_name
       (PyLong_FromUint32 (enum (''ID_REG_RV64_'' @ upper_name)))"

definition RV32_REG_SPEC :: "(string \<Rightarrow> 32 word) \<Rightarrow> string \<Rightarrow> PyDict \<Rightarrow> PyDict" where
  "RV32_REG_SPEC enum upper_name riscv32RegistersDict =
     xPyDict_SetItemString riscv32RegistersDict upper_name
       (PyLong_FromUint32 (enum (''ID_REG_RV32_'' @ upper_name)))"

text \<open>
  Expanding one line under \<^verbatim>\<open>#define REG_SPEC_NO_CAPSTONE REG_SPEC\<close> and, where
  it is there, \<^verbatim>\<open>#define SYS_REG_SPEC REG_SPEC\<close>: every macro of the line runs the
  body of \<^verbatim>\<open>REG_SPEC\<close>.
\<close>

fun expand :: "('a \<Rightarrow> PyDict \<Rightarrow> PyDict) \<Rightarrow> 'a spec_line \<Rightarrow> PyDict \<Rightarrow> PyDict" where
  "expand body (REG_SPEC a) d = body a d"
| "expand body (REG_SPEC_NO_CAPSTONE a) d = body a d"

fun expand_sys :: "('a \<Rightarrow> PyDict \<Rightarrow> PyDict) \<Rightarrow> 'a sys_spec_line \<Rightarrow> PyDict \<Rightarrow> PyDict" where
  "expand_sys body (Reg l) d = expand body l d"
| "expand_sys body (SYS_REG_SPEC a) d = body a d"

text \<open>An \<^verbatim>\<open>#include\<close> of a table runs its lines in order.\<close>

definition include_spec ::
  "('a \<Rightarrow> PyDict \<Rightarrow> PyDict) \<Rightarrow> 'a spec_line list \<Rightarrow> PyDict \<Rightarrow> PyDict" where
  "include_spec body table d = fold (expand body) table d"

definition include_sys_spec ::
  "('a \<Rightarrow> PyDict \<Rightarrow> PyDict) \<Rightarrow> 'a sys_spec_line list \<Rightarrow> PyDict \<Rightarrow> PyDict" where
  "include_sys_spec body table d = fold (expand_sys body) table d"

subsection \<open>The per-architecture dictionaries\<close>

definition x86RegistersDict :: "build \<Rightarrow> PyDict" where
  "x86RegistersDict b = include_spec (X86_REG_SPEC (register_e b)) (x86_spec b) xPyDict_New"

definition x8664RegistersDict :: "build \<Rightarrow> PyDict" where
  "x8664RegistersDict b = include_spec (X8664_REG_SPEC (register_e b)) (x86_spec b) xPyDict_New"

definition aarch64RegistersDict :: "build \<Rightarrow> PyDict" where
  "aarch64RegistersDict b =
     include_sys_spec (AARCH64_REG_SPEC (register_e b)) (aarch64_spec b) xPyDict_New"

definition arm32RegistersDict :: "build \<Rightarrow> PyDict" where
  "arm32RegistersDict b = include_spec (ARM32_REG_SPEC (register_e b)) (arm32_spec b) xPyDict_New"

definition riscv64RegistersDict :: "build \<Rightarrow> PyDict" where
  "riscv64RegistersDict b =
     include_sys_spec (RV64_REG_SPEC (register_e b)) (riscv64_spec b) xPyDict_New"

definition riscv32RegistersDict :: "build \<Rightarrow> PyDict" where
  "riscv32RegistersDict b =
     include_sys_spec (RV32_REG_SPEC (register_e b)) (riscv32_spec b) xPyDict_New"

subsection \<open>\<^verbatim>\<open>initRegNamespace\<close>\<close>

text \<open>
  The function mutates \<^verbatim>\<open>registersDict\<close> in place; here it takes the dictionary
  as it is on entry and returns it as it is on exit.  The block under
  \<^verbatim>\<open>#ifdef COMPILE_RISCV\<close> is there only in a build that defines it.
\<close>

definition initRegNamespace :: "build \<Rightarrow> PyDict \<Rightarrow> PyDict" where
  "initRegNamespace b registersDict0 =
     (let registersDict = PyDict_Clear registersDict0;
          x86RegistersDictClass =
            xPyClass_New None (x86RegistersDict b) (xPyString_FromString ''X86'');
          registersDict = xPyDict_SetItemString registersDict ''X86'' x86RegistersDictClass;
          x8664RegistersDictClass =
            xPyClass_New None (x8664RegistersDict b) (xPyString_FromString ''X86_64'');
          registersDict = xPyDict_SetItemString registersDict ''X86_64'' x8664RegistersDictClass;
          aarch64RegistersDictClass =
            xPyClass_New None (aarch64RegistersDict b) (xPyString_FromString ''AARCH64'');
          registersDict = xPyDict_SetItemString registersDict ''AARCH64'' aarch64RegistersDictClass;
          arm32RegistersDictClass =
            xPyClass_New None (arm32RegistersDict b) (xPyString_FromString ''ARM32'');
          registersDict = xPyDict_SetItemString registersDict ''ARM32'' arm32RegistersDictClass
      in if COMPILE_RISCV b
         then
           (let riscv64RegistersDictClass =
                  xPyClass_New None (riscv64RegistersDict b) (xPyString_FromString ''RV64'');
                registersDict = xPyDict_SetItemString registersDict ''RV64'' riscv64RegistersDictClass;
                riscv32RegistersDictClass =
                  xPyClass_New None (riscv32RegistersDict b) (xPyString_FromString ''RV32'');
                registersDict = xPyDict_SetItemString registersDict ''RV32'' riscv32RegistersDictClass
            in registersDict)
         else registersDict)"

subsection \<open>Reading the tables and the published dictionary\<close>

text \<open>The arguments of a line, whichever macro it invokes.\<close>

fun line_args :: "'a spec_line \<Rightarrow> 'a" where
  "line_args (REG_SPEC a) = a"
| "line_args (REG_SPEC_NO_CAPSTONE a) = a"

fun sys_line_args :: "'a sys_spec_line \<Rightarrow> 'a" where
  "sys_line_args (Reg l) = line_args l"
| "sys_line_args (SYS_REG_SPEC a) = a"

text \<open>The register names of each table, in the order of its lines.\<close>

definition x86_names :: "build \<Rightarrow> string list" where
  "x86_names b = map UPPER_NAME (map line_args (x86_spec b))"

definition x86_avail_names :: "build \<Rightarrow> string list" where
  "x86_avail_names b = map UPPER_NAME (filter X86_AVAIL (map line_args (x86_spec b)))"

definition aarch64_names :: "build \<Rightarrow> string list" where
  "aarch64_names b = map sys_line_args (aarch64_spec b)"

definition arm32_names :: "build \<Rightarrow> string list" where
  "arm32_names b = map line_args (arm32_spec b)"

definition riscv64_names :: "build \<Rightarrow> string list" where
  "riscv64_names b = map sys_line_args (riscv64_spec b)"

definition riscv32_names :: "build \<Rightarrow> string list" where
  "riscv32_names b = map sys_line_args (riscv32_spec b)"


text \<open>
  The value stored for a register: the Python integer of the enumerator with the given
  prefix.  Storing the values of a list of names one after the other is what every
  expansion of a table amounts to.
\<close>

definition reg_id :: "(string \<Rightarrow> 32 word) \<Rightarrow> string \<Rightarrow> string \<Rightarrow> PyObject" where
  "reg_id enum prefix n = PyLong (uint (enum (prefix @ n)))"

definition set_items :: "(string \<Rightarrow> PyObject) \<Rightarrow> string list \<Rightarrow> PyDict \<Rightarrow> PyDict" where
  "set_items g ns d = fold (\<lambda>n. AList.update n (g n)) ns d"

text \<open>
  Modelled from the spec: the consumer's query \<open>namespace[architectureLabel]\<close> is
  missing (the scripting runtime makes it).  It looks the label up in the published
  dictionary and takes the dictionary of the class found there; \<open>None\<close> is the
  "not found" result.
\<close>

definition namespace_of :: "PyDict \<Rightarrow> string \<Rightarrow> PyDict option" where
  "namespace_of registersDict arch =
     (case map_of registersDict arch of
        Some (PyClass bases d n) \<Rightarrow> Some d
      | Some (PyLong i) \<Rightarrow> None
      | Some (PyString str) \<Rightarrow> None
      | None \<Rightarrow> None)"

text \<open>
  Modelled from the spec: the consumer's query
  \<open>namespace[architectureLabel][canonicalRegisterName]\<close> is missing (the scripting
  runtime makes it).  It looks the register name up in the namespace found under the
  label; \<open>None\<close> is the "not found" result, at either level.
\<close>

definition lookup_register :: "PyDict \<Rightarrow> string \<Rightarrow> string \<Rightarrow> PyObject option" where
  "lookup_register registersDict arch name =
     (case namespace_of registersDict arch of
        Some d \<Rightarrow> map_of d name
      | None \<Rightarrow> None)"

text \<open>A table with its system-register lines rewritten as ordinary lines.\<close>

fun as_ordinary :: "'a sys_spec_line \<Rightarrow> 'a sys_spec_line" where
  "as_ordinary (Reg l) = Reg l"
| "as_ordinary (SYS_REG_SPEC a) = Reg (REG_SPEC a)"

subsection \<open>A small build\<close>

text \<open>
  A build with the three-line x86 table of the specification's example scenario
  (\<open>AL\<close> with identifier 1, \<open>AH\<close> with identifier 2, \<open>FUTURE1\<close> with identifier 3 and
  not available), and one ordinary and one system register for the architectures that
  have system registers.
\<close>

definition toy_ids :: "(string \<times> 32 word) list" where
  "toy_ids =
     [(''ID_REG_X86_AL'', 1), (''ID_REG_X86_AH'', 2), (''ID_REG_X86_FUTURE1'', 3),
      (''ID_REG_AARCH64_X0'', 4), (''ID_REG_AARCH64_ACTLR_EL1'', 5),
      (''ID_REG_ARM32_R0'', 6),
      (''ID_REG_RV64_X0'', 7), (''ID_REG_RV64_MSTATUS'', 8),
      (''ID_REG_RV32_X0'', 9), (''ID_REG_RV32_MSTATUS'', 10)]"

definition toy_register_e :: "string \<Rightarrow> 32 word" where
  "toy_register_e e = (case map_of toy_ids e of Some v \<Rightarrow> v | None \<Rightarrow> 0)"

definition toy_x86_spec :: "x86_args spec_line list" where
  "toy_x86_spec =
     [REG_SPEC \<lparr>UPPER_NAME = ''AL'', X86_AVAIL = True\<rparr>,
      REG_SPEC \<lparr>UPPER_NAME = ''AH'', X86_AVAIL = True\<rparr>,
      REG_SPEC \<lparr>UPPER_NAME = ''FUTURE1'', X86_AVAIL = False\<rparr>]"

definition toy_build :: "bool \<Rightarrow> build" where
  "toy_build riscv =
     \<lparr>register_e = toy_register_e,
      x86_spec = toy_x86_spec,
      aarch64_spec = [Reg (REG_SPEC ''X0''), SYS_REG_SPEC ''ACTLR_EL1''],
      arm32_spec = [REG_SPEC ''R0''],
      COMPILE_RISCV = riscv,
      riscv64_spec = [Reg (REG_SPEC ''X0''), SYS_REG_SPEC ''MSTATUS''],
      riscv32_spec = [Reg (REG_SPEC ''X0''), SYS_REG_SPEC ''MSTATUS'']\<rparr>"

subsection \<open>A build with an aliased enumerator\<close>



section \<open>Properties\<close>

subsection \<open>Expanding a table\<close>

lemma expand_line_args: "expand body l d = body (line_args l) d"
  by (cases l) simp_all

lemma expand_sys_line_args: "expand_sys body l d = body (sys_line_args l) d"
  by (cases l) (simp_all add: expand_line_args)

lemma include_spec_fold: "include_spec body table d = fold body (map line_args table) d"
  unfolding include_spec_def
  by (induction table arbitrary: d) (simp_all add: expand_line_args)

lemma include_sys_spec_fold:
  "include_sys_spec body table d = fold body (map sys_line_args table) d"
  unfolding include_sys_spec_def
  by (induction table arbitrary: d) (simp_all add: expand_sys_line_args)

lemma fold_X86_REG_SPEC:
  "fold (X86_REG_SPEC enum) as d =
     set_items (reg_id enum ''ID_REG_X86_'') (map UPPER_NAME (filter X86_AVAIL as)) d"
  unfolding set_items_def
  by (induction as arbitrary: d)
     (simp_all add: X86_REG_SPEC_def xPyDict_SetItemString_def PyLong_FromUint32_def reg_id_def)

lemma fold_X8664_REG_SPEC:
  "fold (X8664_REG_SPEC enum) as d =
     set_items (reg_id enum ''ID_REG_X86_'') (map UPPER_NAME as) d"
  unfolding set_items_def
  by (induction as arbitrary: d)
     (simp_all add: X8664_REG_SPEC_def xPyDict_SetItemString_def PyLong_FromUint32_def reg_id_def)

lemma fold_AARCH64_REG_SPEC:
  "fold (AARCH64_REG_SPEC enum) ns d = set_items (reg_id enum ''ID_REG_AARCH64_'') ns d"
  unfolding set_items_def
  by (induction ns arbitrary: d)
     (simp_all add: AARCH64_REG_SPEC_def xPyDict_SetItemString_def PyLong_FromUint32_def reg_id_def)

lemma fold_ARM32_REG_SPEC:
  "fold (ARM32_REG_SPEC enum) ns d = set_items (reg_id enum ''ID_REG_ARM32_'') ns d"
  unfolding set_items_def
  by (induction ns arbitrary: d)
     (simp_all add: ARM32_REG_SPEC_def xPyDict_SetItemString_def PyLong_FromUint32_def reg_id_def)

lemma fold_RV64_REG_SPEC:
  "fold (RV64_REG_SPEC enum) ns d = set_items (reg_id enum ''ID_REG_RV64_'') ns d"
  unfolding set_items_def
  by (induction ns arbitrary: d)
     (simp_all add: RV64_REG_SPEC_def xPyDict_SetItemString_def PyLong_FromUint32_def reg_id_def)

lemma fold_RV32_REG_SPEC:
  "fold (RV32_REG_SPEC enum) ns d = set_items (reg_id enum ''ID_REG_RV32_'') ns d"
  unfolding set_items_def
  by (induction ns arbitrary: d)
     (simp_all add: RV32_REG_SPEC_def xPyDict_SetItemString_def PyLong_FromUint32_def reg_id_def)

text \<open>Each dictionary is the empty one with the values of its table's names stored.\<close>

lemma x86RegistersDict_items:
  "x86RegistersDict b = set_items (reg_id (register_e b) ''ID_REG_X86_'') (x86_avail_names b) []"
  by (simp add: x86RegistersDict_def include_spec_fold fold_X86_REG_SPEC x86_avail_names_def
        xPyDict_New_def)

lemma x8664RegistersDict_items:
  "x8664RegistersDict b = set_items (reg_id (register_e b) ''ID_REG_X86_'') (x86_names b) []"
  by (simp add: x8664RegistersDict_def include_spec_fold fold_X8664_REG_SPEC x86_names_def
        xPyDict_New_def)

lemma aarch64RegistersDict_items:
  "aarch64RegistersDict b =
     set_items (reg_id (register_e b) ''ID_REG_AARCH64_'') (aarch64_names b) []"
  by (simp add: aarch64RegistersDict_def include_sys_spec_fold fold_AARCH64_REG_SPEC
        aarch64_names_def xPyDict_New_def)

lemma arm32RegistersDict_items:
  "arm32RegistersDict b = set_items (reg_id (register_e b) ''ID_REG_ARM32_'') (arm32_names b) []"
  by (simp add: arm32RegistersDict_def include_spec_fold fold_ARM32_REG_SPEC arm32_names_def
        xPyDict_New_def)

lemma riscv64RegistersDict_items:
  "riscv64RegistersDict b =
     set_items (reg_id (register_e b) ''ID_REG_RV64_'') (riscv64_names b) []"
  by (simp add: riscv64RegistersDict_def include_sys_spec_fold fold_RV64_REG_SPEC
        riscv64_names_def xPyDict_New_def)

lemma riscv32RegistersDict_items:
  "riscv32RegistersDict b =
     set_items (reg_id (register_e b) ''ID_REG_RV32_'') (riscv32_names b) []"
  by (simp add: riscv32RegistersDict_def include_sys_spec_fold fold_RV32_REG_SPEC
        riscv32_names_def xPyDict_New_def)

subsection \<open>Storing a list of names\<close>

lemma map_of_set_items:
  "map_of (set_items g ns d) k = (if k \<in> set ns then Some (g k) else map_of d k)"
  unfolding set_items_def
  by (induction ns arbitrary: d) (auto simp add: update_conv')


lemma distinct_set_items:
  "distinct (map fst d) \<Longrightarrow> distinct (map fst (set_items g ns d))"
  unfolding set_items_def
  by (induction ns arbitrary: d) (simp_all add: distinct_update)

lemma update_fresh: "k \<notin> fst ` set d \<Longrightarrow> AList.update k v d = d @ [(k, v)]"
  by (induction d) auto

lemma set_items_fresh:
  "distinct ns \<Longrightarrow> set ns \<inter> fst ` set d = {} \<Longrightarrow>
   set_items g ns d = d @ map (\<lambda>n. (n, g n)) ns"
  unfolding set_items_def
proof (induction ns arbitrary: d)
  case Nil
  then show ?case by simp
next
  case (Cons n ns)
  have fresh: "n \<notin> fst ` set d" using Cons.prems(2) by auto
  have "set ns \<inter> fst ` set (d @ [(n, g n)]) = {}"
    using Cons.prems by auto
  with Cons.IH [of "d @ [(n, g n)]"] Cons.prems(1) fresh show ?case
    by (simp add: update_fresh)
qed

subsection \<open>The published dictionary\<close>

lemma initRegNamespace_entries:
  "initRegNamespace b s =
     [(''X86'', PyClass None (x86RegistersDict b) (PyString ''X86'')),
      (''X86_64'', PyClass None (x8664RegistersDict b) (PyString ''X86_64'')),
      (''AARCH64'', PyClass None (aarch64RegistersDict b) (PyString ''AARCH64'')),
      (''ARM32'', PyClass None (arm32RegistersDict b) (PyString ''ARM32''))]
     @ (if COMPILE_RISCV b
        then [(''RV64'', PyClass None (riscv64RegistersDict b) (PyString ''RV64'')),
              (''RV32'', PyClass None (riscv32RegistersDict b) (PyString ''RV32''))]
        else [])"
  by (simp add: initRegNamespace_def Let_def PyDict_Clear_def xPyDict_SetItemString_def
        xPyClass_New_def xPyString_FromString_def)

lemma namespace_of_initRegNamespace:
  "namespace_of (initRegNamespace b s) arch =
     (if arch = ''X86'' then Some (x86RegistersDict b)
      else if arch = ''X86_64'' then Some (x8664RegistersDict b)
      else if arch = ''AARCH64'' then Some (aarch64RegistersDict b)
      else if arch = ''ARM32'' then Some (arm32RegistersDict b)
      else if arch = ''RV64'' \<and> COMPILE_RISCV b then Some (riscv64RegistersDict b)
      else if arch = ''RV32'' \<and> COMPILE_RISCV b then Some (riscv32RegistersDict b)
      else None)"
  by (simp add: namespace_of_def initRegNamespace_entries)

lemma lookup_register_initRegNamespace:
  "lookup_register (initRegNamespace b s) arch n =
     (if arch = ''X86'' then map_of (x86RegistersDict b) n
      else if arch = ''X86_64'' then map_of (x8664RegistersDict b) n
      else if arch = ''AARCH64'' then map_of (aarch64RegistersDict b) n
      else if arch = ''ARM32'' then map_of (arm32RegistersDict b) n
      else if arch = ''RV64'' \<and> COMPILE_RISCV b then map_of (riscv64RegistersDict b) n
      else if arch = ''RV32'' \<and> COMPILE_RISCV b then map_of (riscv32RegistersDict b) n
      else None)"
  by (simp add: lookup_register_def namespace_of_initRegNamespace)

lemma initRegNamespace_keys:
  "map fst (initRegNamespace b s) =
     (if COMPILE_RISCV b
      then [''X86'', ''X86_64'', ''AARCH64'', ''ARM32'', ''RV64'', ''RV32'']
      else [''X86'', ''X86_64'', ''AARCH64'', ''ARM32''])"
  by (simp add: initRegNamespace_entries)

lemma dicts_COMPILE_RISCV_update:
  "x86RegistersDict (b\<lparr>COMPILE_RISCV := c\<rparr>) = x86RegistersDict b"
  "x8664RegistersDict (b\<lparr>COMPILE_RISCV := c\<rparr>) = x8664RegistersDict b"
  "aarch64RegistersDict (b\<lparr>COMPILE_RISCV := c\<rparr>) = aarch64RegistersDict b"
  "arm32RegistersDict (b\<lparr>COMPILE_RISCV := c\<rparr>) = arm32RegistersDict b"
  "riscv64RegistersDict (b\<lparr>COMPILE_RISCV := c\<rparr>) = riscv64RegistersDict b"
  "riscv32RegistersDict (b\<lparr>COMPILE_RISCV := c\<rparr>) = riscv32RegistersDict b"
  by (simp_all add: x86RegistersDict_def x8664RegistersDict_def aarch64RegistersDict_def
        arm32RegistersDict_def riscv64RegistersDict_def riscv32RegistersDict_def)

lemma initRegNamespace_riscv_append:
  "initRegNamespace (b\<lparr>COMPILE_RISCV := True\<rparr>) s =
     initRegNamespace (b\<lparr>COMPILE_RISCV := False\<rparr>) s' @
       [(''RV64'', PyClass None (riscv64RegistersDict b) (PyString ''RV64'')),
        (''RV32'', PyClass None (riscv32RegistersDict b) (PyString ''RV32''))]"
  by (simp add: initRegNamespace_entries dicts_COMPILE_RISCV_update)

lemma labels_minus_riscv:
  "{''X86'', ''X86_64'', ''AARCH64'', ''ARM32''} =
   {''X86'', ''X86_64'', ''AARCH64'', ''ARM32'', ''RV64'', ''RV32''} - {''RV64'', ''RV32''}"
  by (simp add: insert_Diff_if)

subsection \<open>Storing and reading back\<close>

lemma map_of_items_Some:
  "map_of (set_items g ns []) n = Some v \<Longrightarrow> n \<in> set ns \<and> v = g n"
  by (simp add: map_of_set_items split: if_splits)

lemma reg_id_range: "\<exists>i. reg_id enum p n = PyLong i \<and> 0 \<le> i \<and> i < 2 ^ 32"
proof -
  have "uint (enum (p @ n)) < 2 ^ LENGTH(32)" by (rule uint_lt2p)
  then show ?thesis by (simp add: reg_id_def)
qed

lemma distinct_keys_items: "distinct (map fst (set_items g ns []))"
  by (rule distinct_set_items) simp

lemma items_pair_iff:
  "(n, v) \<in> set (set_items g ns []) \<longleftrightarrow> n \<in> set ns \<and> v = g n"
proof -
  have "(n, v) \<in> set (set_items g ns []) \<longleftrightarrow> map_of (set_items g ns []) n = Some v"
    using distinct_keys_items [of g ns] by simp
  then show ?thesis by (auto simp add: map_of_set_items)
qed





subsection \<open>Names and enumerators of the tables\<close>

lemma x86_avail_names_subset: "set (x86_avail_names b) \<subseteq> set (x86_names b)"
  by (auto simp add: x86_avail_names_def x86_names_def)

lemma x86_line_name: "l \<in> set (x86_spec b) \<Longrightarrow> UPPER_NAME (line_args l) \<in> set (x86_names b)"
  by (simp add: x86_names_def)

lemma x86_line_avail_name:
  "l \<in> set (x86_spec b) \<Longrightarrow> X86_AVAIL (line_args l) \<Longrightarrow>
   UPPER_NAME (line_args l) \<in> set (x86_avail_names b)"
  by (force simp add: x86_avail_names_def)

lemma x86_unavailable_name:
  assumes "l \<in> set (x86_spec b)" and "\<not> X86_AVAIL (line_args l)"
    and "distinct (x86_names b)"
  shows "UPPER_NAME (line_args l) \<notin> set (x86_avail_names b)"
proof
  assume "UPPER_NAME (line_args l) \<in> set (x86_avail_names b)"
  then obtain l' where l': "l' \<in> set (x86_spec b)" "X86_AVAIL (line_args l')"
    "UPPER_NAME (line_args l') = UPPER_NAME (line_args l)"
    by (auto simp add: x86_avail_names_def)
  have "inj_on (UPPER_NAME \<circ> line_args) (set (x86_spec b))"
    using assms(3) by (simp add: x86_names_def distinct_map)
  moreover have "(UPPER_NAME \<circ> line_args) l' = (UPPER_NAME \<circ> line_args) l"
    using l'(3) by simp
  ultimately have "l' = l" using l'(1) assms(1) by (rule inj_onD)
  with assms(2) l'(2) show False by simp
qed

lemma sys_line_name: "SYS_REG_SPEC n \<in> set table \<Longrightarrow> n \<in> set (map sys_line_args table)"
  by force

lemma sys_line_args_as_ordinary: "sys_line_args (as_ordinary l) = sys_line_args l"
  by (cases l) simp_all

lemma include_sys_spec_as_ordinary:
  "include_sys_spec body (map as_ordinary table) d = include_sys_spec body table d"
  by (simp add: include_sys_spec_fold comp_def sys_line_args_as_ordinary)

subsection \<open>Labels and names that are not there\<close>

lemma namespace_of_absent:
  assumes "arch \<notin> fst ` set d"
  shows "namespace_of d arch = None"
proof -
  from assms have "map_of d arch = None" by (simp add: map_of_eq_None_iff)
  then show ?thesis by (simp add: namespace_of_def)
qed

lemma lookup_register_absent:
  "namespace_of d arch = None \<Longrightarrow> lookup_register d arch n = None"
  by (simp add: lookup_register_def)

subsection \<open>The small build, evaluated\<close>

lemma toy_dicts:
  "x86RegistersDict (toy_build r) = [(''AL'', PyLong 1), (''AH'', PyLong 2)]"
  "x8664RegistersDict (toy_build r) = [(''AL'', PyLong 1), (''AH'', PyLong 2), (''FUTURE1'', PyLong 3)]"
  "aarch64RegistersDict (toy_build r) = [(''X0'', PyLong 4), (''ACTLR_EL1'', PyLong 5)]"
  "arm32RegistersDict (toy_build r) = [(''R0'', PyLong 6)]"
  "riscv64RegistersDict (toy_build r) = [(''X0'', PyLong 7), (''MSTATUS'', PyLong 8)]"
  "riscv32RegistersDict (toy_build r) = [(''X0'', PyLong 9), (''MSTATUS'', PyLong 10)]"
  by (simp_all add: x86RegistersDict_def x8664RegistersDict_def aarch64RegistersDict_def
        arm32RegistersDict_def riscv64RegistersDict_def riscv32RegistersDict_def
        include_spec_def include_sys_spec_def toy_build_def toy_x86_spec_def
        X86_REG_SPEC_def X8664_REG_SPEC_def AARCH64_REG_SPEC_def ARM32_REG_SPEC_def
        RV64_REG_SPEC_def RV32_REG_SPEC_def xPyDict_New_def xPyDict_SetItemString_def
        PyLong_FromUint32_def toy_register_e_def toy_ids_def)

lemma toy_build_riscv: "(toy_build r)\<lparr>COMPILE_RISCV := c\<rparr> = toy_build c"
  by (simp add: toy_build_def)

lemma toy_build_COMPILE_RISCV: "COMPILE_RISCV (toy_build r) = r"
  by (simp add: toy_build_def)

lemma toy_x86_spec: "x86_spec (toy_build r) = toy_x86_spec"
  by (simp add: toy_build_def)

lemma toy_x86_names: "x86_names (toy_build r) = [''AL'', ''AH'', ''FUTURE1'']"
  by (simp add: x86_names_def toy_build_def toy_x86_spec_def)

lemma toy_x86_avail_names: "x86_avail_names (toy_build r) = [''AL'', ''AH'']"
  by (simp add: x86_avail_names_def toy_build_def toy_x86_spec_def)

lemma toy_keys_disabled:
  "fst ` set (initRegNamespace (toy_build False) s) = {''X86'', ''X86_64'', ''AARCH64'', ''ARM32''}"
  using initRegNamespace_keys [of "toy_build False" s]
  by (simp add: toy_build_COMPILE_RISCV flip: set_map)

lemma toy_rv64_enumerators:
  "register_e (toy_build True) ''ID_REG_RV64_X0'' = 7"
  "register_e (toy_build True) ''ID_REG_RV64_MSTATUS'' = 8"
  by (simp_all add: toy_build_def toy_register_e_def toy_ids_def)


section \<open>The claims\<close>

text \<open>
  C1.  The \<open>X86\<close> and the \<open>X86_64\<close> namespace are built from the one table
  \<^verbatim>\<open>x86.spec\<close>.  Every name found in the \<open>X86\<close> namespace is found in the
  \<open>X86_64\<close> namespace with the same value, whatever the table.  When the table has a
  line whose \<^verbatim>\<open>X86_AVAIL\<close> is false, and names its registers once each, that
  line's name is in the \<open>X86_64\<close> namespace and not in the \<open>X86\<close> one, so the
  pairs of the narrower namespace are a strict subset of those of the wider one.
\<close>

theorem x86_strict_subset_x8664:
  assumes "l \<in> set (x86_spec b)" and "\<not> X86_AVAIL (line_args l)"
    and "distinct (x86_names b)"
  shows "(\<forall>n v. lookup_register (initRegNamespace b s) ''X86'' n = Some v \<longrightarrow>
            lookup_register (initRegNamespace b s) ''X86_64'' n = Some v) \<and>
         (\<exists>n v. lookup_register (initRegNamespace b s) ''X86_64'' n = Some v \<and>
            lookup_register (initRegNamespace b s) ''X86'' n = None) \<and>
         set (x86RegistersDict b) \<subset> set (x8664RegistersDict b)"
proof (intro conjI)
  let ?g = "reg_id (register_e b) ''ID_REG_X86_''"
  let ?n = "UPPER_NAME (line_args l)"
  have in64: "?n \<in> set (x86_names b)" using assms(1) by (rule x86_line_name)
  have not32: "?n \<notin> set (x86_avail_names b)" using assms by (rule x86_unavailable_name)
  show "\<forall>n v. lookup_register (initRegNamespace b s) ''X86'' n = Some v \<longrightarrow>
            lookup_register (initRegNamespace b s) ''X86_64'' n = Some v"
    using x86_avail_names_subset [of b]
    by (auto simp add: lookup_register_initRegNamespace x86RegistersDict_items
        x8664RegistersDict_items map_of_set_items split: if_splits)
  have "lookup_register (initRegNamespace b s) ''X86_64'' ?n = Some (?g ?n)"
    using in64
    by (simp add: lookup_register_initRegNamespace x8664RegistersDict_items map_of_set_items)
  moreover have "lookup_register (initRegNamespace b s) ''X86'' ?n = None"
    using not32
    by (simp add: lookup_register_initRegNamespace x86RegistersDict_items map_of_set_items)
  ultimately show "\<exists>n v. lookup_register (initRegNamespace b s) ''X86_64'' n = Some v \<and>
            lookup_register (initRegNamespace b s) ''X86'' n = None"
    by blast
  have "set (x86RegistersDict b) \<subseteq> set (x8664RegistersDict b)"
    using x86_avail_names_subset [of b]
    by (auto simp add: x86RegistersDict_items x8664RegistersDict_items items_pair_iff)
  moreover have "(?n, ?g ?n) \<in> set (x8664RegistersDict b)"
    using in64 by (simp add: x8664RegistersDict_items items_pair_iff)
  moreover have "(?n, ?g ?n) \<notin> set (x86RegistersDict b)"
    using not32 by (simp add: x86RegistersDict_items items_pair_iff)
  ultimately show "set (x86RegistersDict b) \<subset> set (x8664RegistersDict b)"
    by blast
qed

theorem x86_strict_subset_x8664_witness:
  "REG_SPEC \<lparr>UPPER_NAME = ''FUTURE1'', X86_AVAIL = False\<rparr> \<in> set (x86_spec (toy_build False)) \<and>
   distinct (x86_names (toy_build False)) \<and>
   set (x86RegistersDict (toy_build False)) \<subset> set (x8664RegistersDict (toy_build False)) \<and>
   x86RegistersDict (toy_build False) = [(''AL'', PyLong 1), (''AH'', PyLong 2)] \<and>
   x8664RegistersDict (toy_build False) =
     [(''AL'', PyLong 1), (''AH'', PyLong 2), (''FUTURE1'', PyLong 3)]"
proof -
  have h1: "REG_SPEC \<lparr>UPPER_NAME = ''FUTURE1'', X86_AVAIL = False\<rparr> \<in> set (x86_spec (toy_build False))"
    by (simp add: toy_x86_spec toy_x86_spec_def)
  have h2: "\<not> X86_AVAIL (line_args (REG_SPEC \<lparr>UPPER_NAME = ''FUTURE1'', X86_AVAIL = False\<rparr>))"
    by simp
  have h3: "distinct (x86_names (toy_build False))"
    by (simp add: toy_x86_names)
  from x86_strict_subset_x8664 [OF h1 h2 h3, of "[]"]
  have "set (x86RegistersDict (toy_build False)) \<subset> set (x8664RegistersDict (toy_build False))"
    by blast
  with h1 h3 show ?thesis by (simp add: toy_dicts)
qed

text \<open>
  C2.  For a line of \<^verbatim>\<open>x86.spec\<close>: when its \<^verbatim>\<open>X86_AVAIL\<close> is true, its
  name is in the \<open>X86\<close> namespace with the value of its enumerator; when it is false
  (and the table names every register once), its name is not in the \<open>X86\<close> namespace.
  For the example table \<open>AL\<close> (1, available), \<open>AH\<close> (2, available), \<open>FUTURE1\<close>
  (3, not available) the namespace is exactly \<open>AL \<mapsto> 1, AH \<mapsto> 2\<close>, and \<open>FUTURE1\<close>
  is not found.
\<close>

theorem x86_availability_filter:
  assumes "l \<in> set (x86_spec b)"
  shows "(X86_AVAIL (line_args l) \<longrightarrow>
            lookup_register (initRegNamespace b s) ''X86'' (UPPER_NAME (line_args l)) =
              Some (PyLong (uint (register_e b (''ID_REG_X86_'' @ UPPER_NAME (line_args l)))))) \<and>
         (\<not> X86_AVAIL (line_args l) \<longrightarrow> distinct (x86_names b) \<longrightarrow>
            lookup_register (initRegNamespace b s) ''X86'' (UPPER_NAME (line_args l)) = None) \<and>
         namespace_of (initRegNamespace (toy_build r) s) ''X86'' =
           Some [(''AL'', PyLong 1), (''AH'', PyLong 2)] \<and>
         lookup_register (initRegNamespace (toy_build r) s) ''X86'' ''FUTURE1'' = None"
proof (intro conjI impI)
  assume "X86_AVAIL (line_args l)"
  with assms have "UPPER_NAME (line_args l) \<in> set (x86_avail_names b)"
    by (rule x86_line_avail_name)
  then show "lookup_register (initRegNamespace b s) ''X86'' (UPPER_NAME (line_args l)) =
      Some (PyLong (uint (register_e b (''ID_REG_X86_'' @ UPPER_NAME (line_args l)))))"
    by (simp add: lookup_register_initRegNamespace x86RegistersDict_items map_of_set_items
        reg_id_def)
next
  assume "\<not> X86_AVAIL (line_args l)" and "distinct (x86_names b)"
  with assms have "UPPER_NAME (line_args l) \<notin> set (x86_avail_names b)"
    by (rule x86_unavailable_name)
  then show "lookup_register (initRegNamespace b s) ''X86'' (UPPER_NAME (line_args l)) = None"
    by (simp add: lookup_register_initRegNamespace x86RegistersDict_items map_of_set_items)
next
  show "namespace_of (initRegNamespace (toy_build r) s) ''X86'' =
      Some [(''AL'', PyLong 1), (''AH'', PyLong 2)]"
    by (simp add: namespace_of_initRegNamespace toy_dicts)
next
  show "lookup_register (initRegNamespace (toy_build r) s) ''X86'' ''FUTURE1'' = None"
    by (simp add: lookup_register_initRegNamespace toy_dicts)
qed

theorem x86_availability_filter_witness:
  "REG_SPEC \<lparr>UPPER_NAME = ''FUTURE1'', X86_AVAIL = False\<rparr> \<in> set (x86_spec (toy_build False)) \<and>
   REG_SPEC \<lparr>UPPER_NAME = ''AH'', X86_AVAIL = True\<rparr> \<in> set (x86_spec (toy_build False)) \<and>
   distinct (x86_names (toy_build False)) \<and>
   lookup_register (initRegNamespace (toy_build False) []) ''X86'' ''FUTURE1'' = None \<and>
   lookup_register (initRegNamespace (toy_build False) []) ''X86'' ''AH'' = Some (PyLong 2)"
proof -
  have h1: "REG_SPEC \<lparr>UPPER_NAME = ''FUTURE1'', X86_AVAIL = False\<rparr> \<in> set (x86_spec (toy_build False))"
    by (simp add: toy_x86_spec toy_x86_spec_def)
  have h2: "REG_SPEC \<lparr>UPPER_NAME = ''AH'', X86_AVAIL = True\<rparr> \<in> set (x86_spec (toy_build False))"
    by (simp add: toy_x86_spec toy_x86_spec_def)
  have h3: "distinct (x86_names (toy_build False))"
    by (simp add: toy_x86_names)
  have e: "register_e (toy_build False) ''ID_REG_X86_AH'' = 2"
    by (simp add: toy_build_def toy_register_e_def toy_ids_def)
  from x86_availability_filter [OF h1, of "[]"] h3
  have a: "lookup_register (initRegNamespace (toy_build False) []) ''X86'' ''FUTURE1'' = None"
    by simp
  from x86_availability_filter [OF h2, of "[]"] e
  have b: "lookup_register (initRegNamespace (toy_build False) []) ''X86'' ''AH'' = Some (PyLong 2)"
    by simp
  from h1 h2 h3 a b show ?thesis by blast
qed

text \<open>
  C3.  Exporting is a reset followed by a fresh build: whatever the dictionary held on entry
  (nothing, an unrelated entry \<open>(k, v)\<close> put in front, or the result of an earlier export),
  on exit it is the dictionary an export into an empty dictionary gives.  So exporting
  twice in succession gives the same content as exporting once, and no earlier entry is
  left.
\<close>

theorem initRegNamespace_idempotent:
  "initRegNamespace b s = initRegNamespace b xPyDict_New \<and>
   initRegNamespace b (initRegNamespace b s) = initRegNamespace b s \<and>
   initRegNamespace b ((k, v) # s) = initRegNamespace b s"
  by (simp add: initRegNamespace_entries)




text \<open>
  C5.  The keys of the published dictionary are, in order of insertion, \<open>X86\<close>,
  \<open>X86_64\<close>, \<open>AARCH64\<close> and \<open>ARM32\<close>, followed by \<open>RV64\<close> and \<open>RV32\<close> exactly
  when \<^verbatim>\<open>COMPILE_RISCV\<close> is defined; as a set of keys, there is no other.
\<close>

theorem initRegNamespace_labels:
  "map fst (initRegNamespace b s) =
     (if COMPILE_RISCV b
      then [''X86'', ''X86_64'', ''AARCH64'', ''ARM32'', ''RV64'', ''RV32'']
      else [''X86'', ''X86_64'', ''AARCH64'', ''ARM32'']) \<and>
   fst ` set (initRegNamespace b s) =
     (if COMPILE_RISCV b
      then {''X86'', ''X86_64'', ''AARCH64'', ''ARM32'', ''RV64'', ''RV32''}
      else {''X86'', ''X86_64'', ''AARCH64'', ''ARM32''})"
proof -
  have "fst ` set (initRegNamespace b s) = set (map fst (initRegNamespace b s))"
    by simp
  also have "\<dots> = (if COMPILE_RISCV b
      then {''X86'', ''X86_64'', ''AARCH64'', ''ARM32'', ''RV64'', ''RV32''}
      else {''X86'', ''X86_64'', ''AARCH64'', ''ARM32''})"
    unfolding initRegNamespace_keys by simp
  finally show ?thesis using initRegNamespace_keys by simp
qed

text \<open>
  C6.  Between a build with \<^verbatim>\<open>COMPILE_RISCV\<close> and the same build without it, the
  published dictionary differs by the two entries \<open>RV64\<close> and \<open>RV32\<close>, which the
  enabled build appends: the disabled build has the keys of the enabled one less these
  two, and under each of the four other labels both builds publish the same namespace,
  so every register name is present in both or in neither, with the same value.
\<close>

theorem riscv_disabled_frame:
  "initRegNamespace (b\<lparr>COMPILE_RISCV := True\<rparr>) s =
     initRegNamespace (b\<lparr>COMPILE_RISCV := False\<rparr>) s' @
       [(''RV64'', PyClass None (riscv64RegistersDict b) (PyString ''RV64'')),
        (''RV32'', PyClass None (riscv32RegistersDict b) (PyString ''RV32''))] \<and>
   fst ` set (initRegNamespace (b\<lparr>COMPILE_RISCV := False\<rparr>) s') =
     fst ` set (initRegNamespace (b\<lparr>COMPILE_RISCV := True\<rparr>) s) - {''RV64'', ''RV32''} \<and>
   {''RV64'', ''RV32''} \<subseteq> fst ` set (initRegNamespace (b\<lparr>COMPILE_RISCV := True\<rparr>) s) \<and>
   (\<forall>arch \<in> {''X86'', ''X86_64'', ''AARCH64'', ''ARM32''}.
      namespace_of (initRegNamespace (b\<lparr>COMPILE_RISCV := False\<rparr>) s') arch =
        namespace_of (initRegNamespace (b\<lparr>COMPILE_RISCV := True\<rparr>) s) arch \<and>
      (\<forall>n. lookup_register (initRegNamespace (b\<lparr>COMPILE_RISCV := False\<rparr>) s') arch n =
           lookup_register (initRegNamespace (b\<lparr>COMPILE_RISCV := True\<rparr>) s) arch n))"
proof (intro conjI)
  show "initRegNamespace (b\<lparr>COMPILE_RISCV := True\<rparr>) s =
     initRegNamespace (b\<lparr>COMPILE_RISCV := False\<rparr>) s' @
       [(''RV64'', PyClass None (riscv64RegistersDict b) (PyString ''RV64'')),
        (''RV32'', PyClass None (riscv32RegistersDict b) (PyString ''RV32''))]"
    by (rule initRegNamespace_riscv_append)
  have off: "fst ` set (initRegNamespace (b\<lparr>COMPILE_RISCV := False\<rparr>) s') =
      {''X86'', ''X86_64'', ''AARCH64'', ''ARM32''}"
    using initRegNamespace_keys [of "b\<lparr>COMPILE_RISCV := False\<rparr>" s']
    by (simp flip: set_map)
  have on: "fst ` set (initRegNamespace (b\<lparr>COMPILE_RISCV := True\<rparr>) s) =
      {''X86'', ''X86_64'', ''AARCH64'', ''ARM32'', ''RV64'', ''RV32''}"
    using initRegNamespace_keys [of "b\<lparr>COMPILE_RISCV := True\<rparr>" s]
    by (simp flip: set_map)
  show "fst ` set (initRegNamespace (b\<lparr>COMPILE_RISCV := False\<rparr>) s') =
     fst ` set (initRegNamespace (b\<lparr>COMPILE_RISCV := True\<rparr>) s) - {''RV64'', ''RV32''}"
    unfolding off on by (rule labels_minus_riscv)
  show "{''RV64'', ''RV32''} \<subseteq> fst ` set (initRegNamespace (b\<lparr>COMPILE_RISCV := True\<rparr>) s)"
    unfolding on by simp
  show "\<forall>arch \<in> {''X86'', ''X86_64'', ''AARCH64'', ''ARM32''}.
      namespace_of (initRegNamespace (b\<lparr>COMPILE_RISCV := False\<rparr>) s') arch =
        namespace_of (initRegNamespace (b\<lparr>COMPILE_RISCV := True\<rparr>) s) arch \<and>
      (\<forall>n. lookup_register (initRegNamespace (b\<lparr>COMPILE_RISCV := False\<rparr>) s') arch n =
           lookup_register (initRegNamespace (b\<lparr>COMPILE_RISCV := True\<rparr>) s) arch n)"
    by (simp add: lookup_register_initRegNamespace namespace_of_initRegNamespace
        dicts_COMPILE_RISCV_update)
qed

theorem riscv_disabled_frame_witness:
  "''AARCH64'' \<in> {''X86'', ''X86_64'', ''AARCH64'', ''ARM32''} \<and>
   lookup_register (initRegNamespace (toy_build False) []) ''AARCH64'' ''ACTLR_EL1'' =
     lookup_register (initRegNamespace (toy_build True) []) ''AARCH64'' ''ACTLR_EL1'' \<and>
   lookup_register (initRegNamespace (toy_build True) []) ''AARCH64'' ''ACTLR_EL1'' =
     Some (PyLong 5)"
proof -
  have h: "''AARCH64'' \<in> {''X86'', ''X86_64'', ''AARCH64'', ''ARM32''}" by simp
  have v: "lookup_register (initRegNamespace (toy_build True) []) ''AARCH64'' ''ACTLR_EL1'' =
      Some (PyLong 5)"
    by (simp add: lookup_register_initRegNamespace toy_dicts)
  from riscv_disabled_frame [of "toy_build False" "[]" "[]"] h
  have "lookup_register (initRegNamespace (toy_build False) []) ''AARCH64'' ''ACTLR_EL1'' =
      lookup_register (initRegNamespace (toy_build True) []) ''AARCH64'' ''ACTLR_EL1''"
    unfolding toy_build_riscv by blast
  with h v show ?thesis by blast
qed

text \<open>
  C7.  A query under a label the published dictionary does not have gives "not found":
  so for \<open>RV64\<close> and \<open>RV32\<close> in a build without \<^verbatim>\<open>COMPILE_RISCV\<close>, and for any
  label that is not a key.  A query for a name that no line of the architecture's table
  carries (for \<open>X86\<close>: no line whose \<^verbatim>\<open>X86_AVAIL\<close> is true) gives "not found" as
  well.  In no case is there a value.
\<close>

theorem absent_lookup_not_found:
  "(\<not> COMPILE_RISCV b \<longrightarrow>
      namespace_of (initRegNamespace b s) ''RV64'' = None \<and>
      namespace_of (initRegNamespace b s) ''RV32'' = None \<and>
      lookup_register (initRegNamespace b s) ''RV64'' n = None \<and>
      lookup_register (initRegNamespace b s) ''RV32'' n = None) \<and>
   (arch \<notin> fst ` set (initRegNamespace b s) \<longrightarrow>
      namespace_of (initRegNamespace b s) arch = None \<and>
      lookup_register (initRegNamespace b s) arch n = None) \<and>
   (n \<notin> set (x86_avail_names b) \<longrightarrow>
      lookup_register (initRegNamespace b s) ''X86'' n = None) \<and>
   (n \<notin> set (x86_names b) \<longrightarrow>
      lookup_register (initRegNamespace b s) ''X86_64'' n = None) \<and>
   (n \<notin> set (aarch64_names b) \<longrightarrow>
      lookup_register (initRegNamespace b s) ''AARCH64'' n = None) \<and>
   (n \<notin> set (arm32_names b) \<longrightarrow>
      lookup_register (initRegNamespace b s) ''ARM32'' n = None) \<and>
   (n \<notin> set (riscv64_names b) \<longrightarrow>
      lookup_register (initRegNamespace b s) ''RV64'' n = None) \<and>
   (n \<notin> set (riscv32_names b) \<longrightarrow>
      lookup_register (initRegNamespace b s) ''RV32'' n = None)"
proof (intro conjI impI)
  assume "\<not> COMPILE_RISCV b"
  then show "namespace_of (initRegNamespace b s) ''RV64'' = None"
    and "namespace_of (initRegNamespace b s) ''RV32'' = None"
    and "lookup_register (initRegNamespace b s) ''RV64'' n = None"
    and "lookup_register (initRegNamespace b s) ''RV32'' n = None"
    by (simp_all add: namespace_of_initRegNamespace lookup_register_initRegNamespace)
next
  assume "arch \<notin> fst ` set (initRegNamespace b s)"
  then show absent: "namespace_of (initRegNamespace b s) arch = None"
    by (rule namespace_of_absent)
  then show "lookup_register (initRegNamespace b s) arch n = None"
    by (rule lookup_register_absent)
next
  assume "n \<notin> set (x86_avail_names b)"
  then show "lookup_register (initRegNamespace b s) ''X86'' n = None"
    by (simp add: lookup_register_initRegNamespace x86RegistersDict_items map_of_set_items)
next
  assume "n \<notin> set (x86_names b)"
  then show "lookup_register (initRegNamespace b s) ''X86_64'' n = None"
    by (simp add: lookup_register_initRegNamespace x8664RegistersDict_items map_of_set_items)
next
  assume "n \<notin> set (aarch64_names b)"
  then show "lookup_register (initRegNamespace b s) ''AARCH64'' n = None"
    by (simp add: lookup_register_initRegNamespace aarch64RegistersDict_items map_of_set_items)
next
  assume "n \<notin> set (arm32_names b)"
  then show "lookup_register (initRegNamespace b s) ''ARM32'' n = None"
    by (simp add: lookup_register_initRegNamespace arm32RegistersDict_items map_of_set_items)
next
  assume "n \<notin> set (riscv64_names b)"
  then show "lookup_register (initRegNamespace b s) ''RV64'' n = None"
    by (simp add: lookup_register_initRegNamespace riscv64RegistersDict_items map_of_set_items)
next
  assume "n \<notin> set (riscv32_names b)"
  then show "lookup_register (initRegNamespace b s) ''RV32'' n = None"
    by (simp add: lookup_register_initRegNamespace riscv32RegistersDict_items map_of_set_items)
qed

theorem absent_lookup_not_found_witness:
  "\<not> COMPILE_RISCV (toy_build False) \<and>
   lookup_register (initRegNamespace (toy_build False) []) ''RV64'' ''X0'' = None \<and>
   ''MIPS'' \<notin> fst ` set (initRegNamespace (toy_build False) []) \<and>
   lookup_register (initRegNamespace (toy_build False) []) ''MIPS'' ''X0'' = None \<and>
   ''FUTURE1'' \<notin> set (x86_avail_names (toy_build False)) \<and>
   lookup_register (initRegNamespace (toy_build False) []) ''X86'' ''FUTURE1'' = None \<and>
   ''RAX'' \<notin> set (x86_names (toy_build False)) \<and>
   lookup_register (initRegNamespace (toy_build False) []) ''X86_64'' ''RAX'' = None"
proof -
  have h1: "\<not> COMPILE_RISCV (toy_build False)" by (simp add: toy_build_COMPILE_RISCV)
  have h2: "''MIPS'' \<notin> fst ` set (initRegNamespace (toy_build False) [])"
    unfolding toy_keys_disabled by simp
  have h3: "''FUTURE1'' \<notin> set (x86_avail_names (toy_build False))"
    by (simp add: toy_x86_avail_names)
  have h4: "''RAX'' \<notin> set (x86_names (toy_build False))"
    by (simp add: toy_x86_names)
  from absent_lookup_not_found [of "toy_build False" "[]" "''X0''" "''MIPS''"] h1 h2
  have a: "lookup_register (initRegNamespace (toy_build False) []) ''RV64'' ''X0'' = None"
    and b: "lookup_register (initRegNamespace (toy_build False) []) ''MIPS'' ''X0'' = None"
    by blast+
  from absent_lookup_not_found [of "toy_build False" "[]" "''FUTURE1''" "''MIPS''"] h3
  have c: "lookup_register (initRegNamespace (toy_build False) []) ''X86'' ''FUTURE1'' = None"
    by blast
  from absent_lookup_not_found [of "toy_build False" "[]" "''RAX''" "''MIPS''"] h4
  have d: "lookup_register (initRegNamespace (toy_build False) []) ''X86_64'' ''RAX'' = None"
    by blast
  from h1 h2 h3 h4 a b c d show ?thesis by blast
qed

text \<open>
  C8.  A \<^verbatim>\<open>SYS_REG_SPEC\<close> line of \<^verbatim>\<open>aarch64.spec\<close> (and of
  \<^verbatim>\<open>riscv64.spec\<close> and \<^verbatim>\<open>riscv32.spec\<close> in a build with
  \<^verbatim>\<open>COMPILE_RISCV\<close>) puts its name into the architecture's one namespace, with the
  value of its enumerator.  The published dictionary keeps no trace of the macro:
  rewriting every system-register line as an ordinary one publishes the same dictionary.
\<close>

theorem system_registers_flat:
  "(SYS_REG_SPEC n \<in> set (aarch64_spec b) \<longrightarrow>
      lookup_register (initRegNamespace b s) ''AARCH64'' n =
        Some (PyLong (uint (register_e b (''ID_REG_AARCH64_'' @ n))))) \<and>
   (COMPILE_RISCV b \<longrightarrow> SYS_REG_SPEC n \<in> set (riscv64_spec b) \<longrightarrow>
      lookup_register (initRegNamespace b s) ''RV64'' n =
        Some (PyLong (uint (register_e b (''ID_REG_RV64_'' @ n))))) \<and>
   (COMPILE_RISCV b \<longrightarrow> SYS_REG_SPEC n \<in> set (riscv32_spec b) \<longrightarrow>
      lookup_register (initRegNamespace b s) ''RV32'' n =
        Some (PyLong (uint (register_e b (''ID_REG_RV32_'' @ n))))) \<and>
   initRegNamespace
     (b\<lparr>aarch64_spec := map as_ordinary (aarch64_spec b),
        riscv64_spec := map as_ordinary (riscv64_spec b),
        riscv32_spec := map as_ordinary (riscv32_spec b)\<rparr>) s = initRegNamespace b s"
proof (intro conjI impI)
  assume "SYS_REG_SPEC n \<in> set (aarch64_spec b)"
  then have "n \<in> set (aarch64_names b)" unfolding aarch64_names_def by (rule sys_line_name)
  then show "lookup_register (initRegNamespace b s) ''AARCH64'' n =
      Some (PyLong (uint (register_e b (''ID_REG_AARCH64_'' @ n))))"
    by (simp add: lookup_register_initRegNamespace aarch64RegistersDict_items map_of_set_items
        reg_id_def)
next
  assume "COMPILE_RISCV b" and "SYS_REG_SPEC n \<in> set (riscv64_spec b)"
  then have "COMPILE_RISCV b" and "n \<in> set (riscv64_names b)"
    unfolding riscv64_names_def by (simp_all add: sys_line_name del: set_map)
  then show "lookup_register (initRegNamespace b s) ''RV64'' n =
      Some (PyLong (uint (register_e b (''ID_REG_RV64_'' @ n))))"
    by (simp add: lookup_register_initRegNamespace riscv64RegistersDict_items map_of_set_items
        reg_id_def)
next
  assume "COMPILE_RISCV b" and "SYS_REG_SPEC n \<in> set (riscv32_spec b)"
  then have "COMPILE_RISCV b" and "n \<in> set (riscv32_names b)"
    unfolding riscv32_names_def by (simp_all add: sys_line_name del: set_map)
  then show "lookup_register (initRegNamespace b s) ''RV32'' n =
      Some (PyLong (uint (register_e b (''ID_REG_RV32_'' @ n))))"
    by (simp add: lookup_register_initRegNamespace riscv32RegistersDict_items map_of_set_items
        reg_id_def)
next
  show "initRegNamespace
     (b\<lparr>aarch64_spec := map as_ordinary (aarch64_spec b),
        riscv64_spec := map as_ordinary (riscv64_spec b),
        riscv32_spec := map as_ordinary (riscv32_spec b)\<rparr>) s = initRegNamespace b s"
    by (simp add: initRegNamespace_entries x86RegistersDict_def x8664RegistersDict_def
        aarch64RegistersDict_def arm32RegistersDict_def riscv64RegistersDict_def
        riscv32RegistersDict_def include_sys_spec_as_ordinary)
qed

theorem system_registers_flat_witness:
  "SYS_REG_SPEC ''ACTLR_EL1'' \<in> set (aarch64_spec (toy_build True)) \<and>
   lookup_register (initRegNamespace (toy_build True) []) ''AARCH64'' ''ACTLR_EL1'' =
     Some (PyLong 5) \<and>
   COMPILE_RISCV (toy_build True) \<and>
   SYS_REG_SPEC ''MSTATUS'' \<in> set (riscv64_spec (toy_build True)) \<and>
   lookup_register (initRegNamespace (toy_build True) []) ''RV64'' ''MSTATUS'' =
     Some (PyLong 8) \<and>
   SYS_REG_SPEC ''MSTATUS'' \<in> set (riscv32_spec (toy_build True)) \<and>
   lookup_register (initRegNamespace (toy_build True) []) ''RV32'' ''MSTATUS'' =
     Some (PyLong 10)"
proof -
  have h1: "SYS_REG_SPEC ''ACTLR_EL1'' \<in> set (aarch64_spec (toy_build True))"
    and h2: "COMPILE_RISCV (toy_build True)"
    and h3: "SYS_REG_SPEC ''MSTATUS'' \<in> set (riscv64_spec (toy_build True))"
    and h4: "SYS_REG_SPEC ''MSTATUS'' \<in> set (riscv32_spec (toy_build True))"
    by (simp_all add: toy_build_def)
  have e: "register_e (toy_build True) ''ID_REG_AARCH64_ACTLR_EL1'' = 5"
    "register_e (toy_build True) ''ID_REG_RV64_MSTATUS'' = 8"
    "register_e (toy_build True) ''ID_REG_RV32_MSTATUS'' = 10"
    by (simp_all add: toy_build_def toy_register_e_def toy_ids_def)
  from system_registers_flat [of "''ACTLR_EL1''" "toy_build True" "[]"] h1 e
  have a: "lookup_register (initRegNamespace (toy_build True) []) ''AARCH64'' ''ACTLR_EL1'' =
      Some (PyLong 5)"
    by simp
  from system_registers_flat [of "''MSTATUS''" "toy_build True" "[]"] h2 h3 h4 e
  have b: "lookup_register (initRegNamespace (toy_build True) []) ''RV64'' ''MSTATUS'' =
      Some (PyLong 8)"
    and c: "lookup_register (initRegNamespace (toy_build True) []) ''RV32'' ''MSTATUS'' =
      Some (PyLong 10)"
    by simp_all
  from h1 h2 h3 h4 a b c show ?thesis by blast
qed

text \<open>
  C9.  Every line of \<^verbatim>\<open>x86.spec\<close> has its name in the \<open>X86_64\<close> namespace with
  the value of its enumerator, whatever its \<^verbatim>\<open>X86_AVAIL\<close>.  When the table
  names every register once, the namespace is the table line for line: one pair per
  line, in order.  The namespace depends on the names of the table and on the
  enumeration only: two builds that agree on these publish the same \<open>X86_64\<close>
  namespace, however their availability columns differ.
\<close>

theorem x8664_unconditional:
  "(\<forall>l \<in> set (x86_spec b).
      lookup_register (initRegNamespace b s) ''X86_64'' (UPPER_NAME (line_args l)) =
        Some (PyLong (uint (register_e b (''ID_REG_X86_'' @ UPPER_NAME (line_args l)))))) \<and>
   (distinct (x86_names b) \<longrightarrow>
      x8664RegistersDict b =
        map (\<lambda>l. (UPPER_NAME (line_args l),
                  PyLong (uint (register_e b (''ID_REG_X86_'' @ UPPER_NAME (line_args l))))))
          (x86_spec b)) \<and>
   (x86_names b' = x86_names b \<longrightarrow> register_e b' = register_e b \<longrightarrow>
      x8664RegistersDict b' = x8664RegistersDict b)"
proof (intro conjI impI ballI)
  fix l assume "l \<in> set (x86_spec b)"
  then have "UPPER_NAME (line_args l) \<in> set (x86_names b)" by (rule x86_line_name)
  then show "lookup_register (initRegNamespace b s) ''X86_64'' (UPPER_NAME (line_args l)) =
      Some (PyLong (uint (register_e b (''ID_REG_X86_'' @ UPPER_NAME (line_args l)))))"
    by (simp add: lookup_register_initRegNamespace x8664RegistersDict_items map_of_set_items
        reg_id_def)
next
  assume "distinct (x86_names b)"
  then have "set_items (reg_id (register_e b) ''ID_REG_X86_'') (x86_names b) [] =
      [] @ map (\<lambda>n. (n, reg_id (register_e b) ''ID_REG_X86_'' n)) (x86_names b)"
    by (rule set_items_fresh) simp
  then show "x8664RegistersDict b =
      map (\<lambda>l. (UPPER_NAME (line_args l),
                PyLong (uint (register_e b (''ID_REG_X86_'' @ UPPER_NAME (line_args l))))))
        (x86_spec b)"
    by (simp add: x8664RegistersDict_items x86_names_def reg_id_def comp_def)
next
  assume "x86_names b' = x86_names b" and "register_e b' = register_e b"
  then show "x8664RegistersDict b' = x8664RegistersDict b"
    by (simp add: x8664RegistersDict_items)
qed

theorem x8664_unconditional_witness:
  "REG_SPEC \<lparr>UPPER_NAME = ''FUTURE1'', X86_AVAIL = False\<rparr> \<in> set (x86_spec (toy_build False)) \<and>
   lookup_register (initRegNamespace (toy_build False) []) ''X86_64'' ''FUTURE1'' =
     Some (PyLong 3) \<and>
   distinct (x86_names (toy_build False)) \<and>
   x8664RegistersDict (toy_build False) =
     [(''AL'', PyLong 1), (''AH'', PyLong 2), (''FUTURE1'', PyLong 3)]"
proof -
  have h1: "REG_SPEC \<lparr>UPPER_NAME = ''FUTURE1'', X86_AVAIL = False\<rparr> \<in> set (x86_spec (toy_build False))"
    by (simp add: toy_x86_spec toy_x86_spec_def)
  have h2: "distinct (x86_names (toy_build False))"
    by (simp add: toy_x86_names)
  have e: "register_e (toy_build False) ''ID_REG_X86_AL'' = 1"
    "register_e (toy_build False) ''ID_REG_X86_AH'' = 2"
    "register_e (toy_build False) ''ID_REG_X86_FUTURE1'' = 3"
    by (simp_all add: toy_build_def toy_register_e_def toy_ids_def)
  note inst = x8664_unconditional [of "toy_build False" "[]" "toy_build False"]
  from inst h1 e
  have a: "lookup_register (initRegNamespace (toy_build False) []) ''X86_64'' ''FUTURE1'' =
      Some (PyLong 3)"
    by fastforce
  from inst h2
  have "x8664RegistersDict (toy_build False) =
        map (\<lambda>l. (UPPER_NAME (line_args l),
                  PyLong (uint (register_e (toy_build False)
                    (''ID_REG_X86_'' @ UPPER_NAME (line_args l))))))
          (x86_spec (toy_build False))"
    by blast
  then have b: "x8664RegistersDict (toy_build False) =
     [(''AL'', PyLong 1), (''AH'', PyLong 2), (''FUTURE1'', PyLong 3)]"
    using e by (simp add: toy_x86_spec toy_x86_spec_def)
  from h1 h2 a b show ?thesis by blast
qed

text \<open>
  C10.  Every value found under an architecture label and a register name of the published
  dictionary is a Python integer made by \<^verbatim>\<open>PyLong_FromUint32\<close>: it is at least 0
  and less than \<open>2 ^ 32\<close>.
\<close>

theorem leaf_values_uint32:
  assumes "lookup_register (initRegNamespace b s) arch n = Some v"
  shows "\<exists>i. v = PyLong i \<and> 0 \<le> i \<and> i < 2 ^ 32"
proof -
  obtain p ns where "map_of (set_items (reg_id (register_e b) p) ns []) n = Some v"
    using assms
    by (auto simp add: lookup_register_initRegNamespace x86RegistersDict_items
        x8664RegistersDict_items aarch64RegistersDict_items arm32RegistersDict_items
        riscv64RegistersDict_items riscv32RegistersDict_items split: if_splits)
  then have "v = reg_id (register_e b) p n" by (simp add: map_of_items_Some)
  then show ?thesis using reg_id_range [of "register_e b" p n] by simp
qed

theorem leaf_values_uint32_witness:
  "lookup_register (initRegNamespace (toy_build True) []) ''RV32'' ''MSTATUS'' =
     Some (PyLong 10) \<and>
   (\<exists>i. PyLong 10 = PyLong i \<and> 0 \<le> i \<and> i < 2 ^ 32)"
proof -
  have h: "lookup_register (initRegNamespace (toy_build True) []) ''RV32'' ''MSTATUS'' =
      Some (PyLong 10)"
    by (simp add: lookup_register_initRegNamespace toy_dicts toy_build_COMPILE_RISCV)
  from leaf_values_uint32 [OF h] h show ?thesis by blast
qed

end
